theory Spec2Isabelle
  imports Main
begin

section \<open>Values and exceptions of the Python runtime\<close>

text \<open>
  The joke server reads the body of an HTTP response with \<^verbatim>\<open>response.json()\<close> and
  subscripts the value it gets. That value is whatever the JSON text decodes to:
  \<^verbatim>\<open>None\<close>, a bool, an int, a float, a str, a list or a dict with str keys. Floats
  are IEEE doubles and stay abstract. A dict keeps the order in which its items were
  inserted, and prints them in that order, so it is the list of its items, each key
  once; \<open>map_of\<close> looks a key up. Two values are the same only if they are built the
  same way: \<open>JInt 1\<close>, \<open>JBool True\<close> and a float of value one are three values, and
  so are two dicts with the same items in another order, although Python's \<^verbatim>\<open>==\<close>
  holds between them. A str is a \<open>string\<close>: concatenation, the only string operation
  of the code, does not look inside the characters.
\<close>

typedecl pyfloat

datatype json =
    JNull
  | JBool bool
  | JInt int
  | JFloat pyfloat
  | JStr string
  | JArr "json list"
  | JObj "(string \<times> json) list"

text \<open>
  What stands between the brackets of \<^verbatim>\<open>obj[...]\<close>: the code subscripts with the
  str literals \<^verbatim>\<open>'setup'\<close> and \<^verbatim>\<open>'punchline'\<close> and with the int literal \<^verbatim>\<open>0\<close>.
\<close>

datatype subscript = Name string | Index int

text \<open>
  The exceptions the two servers can meet. None is caught anywhere in the source, so
  each one leaves the handler that raised it. \<open>KeyError\<close> carries the missing key, as
  Python's does. \<open>RequestException\<close> is what \<^verbatim>\<open>requests.get\<close> raises when the request
  fails, \<open>JSONDecodeError\<close> what \<^verbatim>\<open>response.json()\<close> raises on a body that is not
  JSON, \<open>DeepLException\<close> what a call of the translation SDK raises, \<open>ValueError\<close>
  what a callable raises for an argument it refuses.
\<close>

datatype py_error =
    KeyError subscript
  | IndexError
  | TypeError
  | JSONDecodeError
  | RequestException
  | DeepLException
  | ValueError

text \<open>
  \<^verbatim>\<open>str(n)\<close> for an int: decimal digits, with a minus sign for a negative number.
\<close>

fun str_nat :: "nat \<Rightarrow> string" where
  "str_nat n =
     (if n < 10 then [''0123456789'' ! n]
      else str_nat (n div 10) @ [''0123456789'' ! (n mod 10)])"

declare str_nat.simps [simp del]

definition str_int :: "int \<Rightarrow> string" where
  "str_int i = (if i < 0 then CHR ''-'' # str_nat (nat (- i)) else str_nat (nat i))"

text \<open>
  Python's \<^verbatim>\<open>seq[i]\<close> on a sequence of length \<open>n\<close>: a negative index counts from the
  end, and an index outside \<open>-n .. n-1\<close> raises IndexError. The result is the position
  to read.
\<close>

definition seq_index :: "nat \<Rightarrow> int \<Rightarrow> py_error + nat" where
  "seq_index n i =
     (let j = (if i < 0 then int n + i else i)
      in if 0 \<le> j \<and> j < int n then Inr (nat j) else Inl IndexError)"

text \<open>
  \<^verbatim>\<open>obj[k]\<close> on a decoded JSON value. A dict raises KeyError for a key it does not
  hold; its keys are strs, so it holds no int key. A list and a str take an int and
  raise TypeError for a str subscript; a str yields the one-character str at that
  position. \<^verbatim>\<open>None\<close>, bools and numbers are not subscriptable.
\<close>

fun getitem :: "json \<Rightarrow> subscript \<Rightarrow> py_error + json" where
  "getitem (JObj d) (Name k) =
     (case map_of d k of None \<Rightarrow> Inl (KeyError (Name k)) | Some v \<Rightarrow> Inr v)"
| "getitem (JObj d) (Index i) = Inl (KeyError (Index i))"
| "getitem (JArr xs) (Index i) =
     (case seq_index (length xs) i of Inl e \<Rightarrow> Inl e | Inr j \<Rightarrow> Inr (xs ! j))"
| "getitem (JStr s) (Index i) =
     (case seq_index (length s) i of Inl e \<Rightarrow> Inl e | Inr j \<Rightarrow> Inr (JStr [s ! j]))"
| "getitem _ _ = Inl TypeError"

text \<open>
  A replacement field \<^verbatim>\<open>{v}\<close> of an f-string is \<^verbatim>\<open>format(v, '')\<close>: a str is
  inserted as it is, and any other value as \<^verbatim>\<open>str(v)\<close>. For a float, a list and a
  dict, \<^verbatim>\<open>str\<close> is the \<^verbatim>\<open>repr\<close> of the interpreter, a function of the value (for
  a dict, of its items in their order), which is the parameter \<open>repr\<close>.
\<close>

definition py_format :: "(json \<Rightarrow> string) \<Rightarrow> json \<Rightarrow> string" where
  "py_format repr v =
     (case v of
        JStr s \<Rightarrow> s
      | JNull \<Rightarrow> ''None''
      | JBool b \<Rightarrow> (if b then ''True'' else ''False'')
      | JInt i \<Rightarrow> str_int i
      | _ \<Rightarrow> repr v)"

section \<open>The joke server: \<^verbatim>\<open>workshops/jokes-python/jokes.py\<close>\<close>

subsection \<open>The network\<close>

text \<open>
  An HTTP response, as far as the code reads it: \<^verbatim>\<open>response.json()\<close> gives the decoded
  body, or raises when the body is not JSON (\<open>json_body = None\<close>). The status code is
  there and is never looked at: the source has no \<^verbatim>\<open>raise_for_status\<close>.
\<close>

record response =
  status_code :: int
  json_body :: "json option"

text \<open>
  The world a handler runs in: the upstream API, which answers a URL with a response
  or with a failed request and may answer differently every time (its answer depends on
  the requests made so far), and the list of the URLs requested so far.
\<close>

record world =
  upstream :: "string list \<Rightarrow> string \<Rightarrow> py_error + response"
  requested :: "string list"

definition requests_get :: "world \<Rightarrow> string \<Rightarrow> (py_error + response) \<times> world" where
  "requests_get w url =
     (upstream w (requested w) url, w\<lparr>requested := requested w @ [url]\<rparr>)"

definition response_json :: "response \<Rightarrow> py_error + json" where
  "response_json r = (case json_body r of None \<Rightarrow> Inl JSONDecodeError | Some j \<Rightarrow> Inr j)"

subsection \<open>Constants\<close>

definition API_BASE_URL :: string where
  "API_BASE_URL = ''https://official-joke-api.appspot.com''"

definition JOKE_TYPES :: "string list" where
  "JOKE_TYPES = [''general'', ''knock-knock'', ''programming'', ''dad'']"

definition CONSISTENT_JOKE :: string where
  "CONSISTENT_JOKE = ''What's brown and sticky?'' @ [CHR 0x0A] @ ''A stick! Ha ha ha ha''"

subsection \<open>The helper and the tools\<close>

text \<open>
  \<^verbatim>\<open>return f"{json['setup']}\n{json['punchline']}"\<close>: the two subscripts are evaluated
  from left to right, so a value that lacks both keys raises for \<^verbatim>\<open>'setup'\<close>.
\<close>

definition extract_joke :: "(json \<Rightarrow> string) \<Rightarrow> json \<Rightarrow> py_error + string" where
  "extract_joke repr j =
     (case getitem j (Name ''setup'') of
        Inl e \<Rightarrow> Inl e
      | Inr setup \<Rightarrow>
          (case getitem j (Name ''punchline'') of
             Inl e \<Rightarrow> Inl e
           | Inr punchline \<Rightarrow>
               Inr (py_format repr setup @ [CHR 0x0A] @ py_format repr punchline)))"

definition get_consistent_joke :: "world \<Rightarrow> (py_error + string) \<times> world" where
  "get_consistent_joke w = (Inr CONSISTENT_JOKE, w)"

definition get_joke :: "(json \<Rightarrow> string) \<Rightarrow> world \<Rightarrow> (py_error + string) \<times> world" where
  "get_joke repr w =
     (case requests_get w (API_BASE_URL @ ''/random_joke'') of
        (Inl e, w') \<Rightarrow> (Inl e, w')
      | (Inr response, w') \<Rightarrow>
          (case response_json response of
             Inl e \<Rightarrow> (Inl e, w')
           | Inr j \<Rightarrow> (extract_joke repr j, w')))"

definition get_joke_by_id ::
  "(json \<Rightarrow> string) \<Rightarrow> world \<Rightarrow> int \<Rightarrow> (py_error + string) \<times> world" where
  "get_joke_by_id repr w i =
     (case requests_get w (API_BASE_URL @ ''/jokes/'' @ str_int i) of
        (Inl e, w') \<Rightarrow> (Inl e, w')
      | (Inr response, w') \<Rightarrow>
          (case response_json response of
             Inl e \<Rightarrow> (Inl e, w')
           | Inr j \<Rightarrow> (extract_joke repr j, w')))"

definition get_joke_by_type ::
  "(json \<Rightarrow> string) \<Rightarrow> world \<Rightarrow> string \<Rightarrow> (py_error + string) \<times> world" where
  "get_joke_by_type repr w joke_type =
     (case requests_get w (API_BASE_URL @ ''/jokes/'' @ joke_type @ ''/random'') of
        (Inl e, w') \<Rightarrow> (Inl e, w')
      | (Inr response, w') \<Rightarrow>
          (case response_json response of
             Inl e \<Rightarrow> (Inl e, w')
           | Inr j \<Rightarrow>
               (case getitem j (Index 0) of
                  Inl e \<Rightarrow> (Inl e, w')
                | Inr first \<Rightarrow> (extract_joke repr first, w'))))"

text \<open>
  The parameters of the two tools that take one are constrained where they are declared:
  \<^verbatim>\<open>id: Annotated[int, Field(ge=1, le=451)]\<close> and \<^verbatim>\<open>joke_type: JOKE_TYPES\<close>, a
  \<^verbatim>\<open>Literal\<close> of the four strs.
\<close>

definition id_constraint :: "int \<Rightarrow> bool" where
  "id_constraint i = (1 \<le> i \<and> i \<le> 451)"

definition joke_type_constraint :: "string \<Rightarrow> bool" where
  "joke_type_constraint t = (t \<in> set JOKE_TYPES)"

text \<open>
  What the upstream API sends for a URL at this moment, decoded: the value that
  \<^verbatim>\<open>requests.get(url).json()\<close> evaluates to, or the exception it raises.
\<close>

definition upstream_json :: "world \<Rightarrow> string \<Rightarrow> py_error + json" where
  "upstream_json w url =
     (case upstream w (requested w) url of Inl e \<Rightarrow> Inl e | Inr r \<Rightarrow> response_json r)"

text \<open>
  A stand-in for the upstream API that answers every request with status 200 and the
  body \<open>j\<close>, in a world where nothing has been requested yet.
\<close>

abbreviation mock_upstream :: "json \<Rightarrow> world" where
  "mock_upstream j \<equiv>
     \<lparr>upstream = \<lambda>h url. Inr \<lparr>status_code = 200, json_body = Some j\<rparr>, requested = []\<rparr>"

section \<open>The translation server: \<^verbatim>\<open>workshops/deepl-simple-python/deepl-simple.py\<close>\<close>

definition FORMALITY_TYPES :: "string list" where
  "FORMALITY_TYPES = [''less'', ''more'', ''default'', ''prefer_less'', ''prefer_more'']"

text \<open>
  \<^verbatim>\<open>os.environ.get("DEEPL_API_KEY")\<close>: the value of the variable, or \<^verbatim>\<open>None\<close> when the
  environment does not hold it; \<^verbatim>\<open>get\<close> does not raise.
\<close>

definition DEEPL_API_KEY :: "(string \<rightharpoonup> string) \<Rightarrow> string option" where
  "DEEPL_API_KEY environ = environ ''DEEPL_API_KEY''"

text \<open>
  \<^verbatim>\<open>deepl_client = deepl.DeepLClient(DEEPL_API_KEY)\<close> runs when the module is loaded.
  The constructor belongs to the SDK, so it is a parameter: it builds a client from
  the key, which may be \<^verbatim>\<open>None\<close>, or raises.
\<close>

definition deepl_client ::
  "(string option \<Rightarrow> py_error + 'c) \<Rightarrow> (string \<rightharpoonup> string) \<Rightarrow> py_error + 'c" where
  "deepl_client constructor environ = constructor (DEEPL_API_KEY environ)"

text \<open>
  The constructor of the SDK's client, which is not part of the source. It refuses a
  key that is \<^verbatim>\<open>None\<close> or the empty str with ValueError; for any other key it builds
  the client, which holds the key, and calls nothing over the network.
\<close>

fun DeepLClient :: "string option \<Rightarrow> py_error + string" where
  "DeepLClient None = Inl ValueError"
| "DeepLClient (Some auth_key) = (if auth_key = [] then Inl ValueError else Inr auth_key)"

text \<open>
  What happens while the module is loaded and run, statement by statement: the client
  is built from the key, the server object is created under its name, the four
  handlers are registered by \<^verbatim>\<open>@mcp.tool\<close> under their names, and \<^verbatim>\<open>mcp.run()\<close>
  enters the loop that serves them.
\<close>

datatype startup_event =
    ClientConstructed "string option"
  | ServerCreated string
  | ToolRegistered string
  | ServerRunning

text \<open>
  The top level of the module, run as a script. An exception raised by the constructor
  is caught nowhere, so it ends the process at that statement and nothing after it
  happens. The calls into the serving framework (\<^verbatim>\<open>FastMCP(...)\<close>, \<^verbatim>\<open>@mcp.tool\<close>,
  \<^verbatim>\<open>mcp.run()\<close>) are taken to do what they are called for. The constructor is a
  parameter; the result is the client the server runs with, or the exception that
  ended the process, and the events up to that point.
\<close>

definition module_run ::
  "(string option \<Rightarrow> py_error + 'c) \<Rightarrow> (string \<rightharpoonup> string) \<Rightarrow>
     (py_error + 'c) \<times> startup_event list" where
  "module_run constructor environ =
     (case deepl_client constructor environ of
        Inl e \<Rightarrow> (Inl e, [ClientConstructed (DEEPL_API_KEY environ)])
      | Inr client \<Rightarrow>
          (Inr client,
           [ClientConstructed (DEEPL_API_KEY environ),
            ServerCreated ''DeepL Translation Simple Server'',
            ToolRegistered ''translate_dude'',
            ToolRegistered ''get_source_languages'',
            ToolRegistered ''get_target_languages'',
            ToolRegistered ''translate_text'',
            ServerRunning]))"

text \<open>An environment that holds no variable at all.\<close>

definition empty_environ :: "string \<rightharpoonup> string" where
  "empty_environ = Map.empty"

text \<open>
  What the SDK's \<^verbatim>\<open>translate_text\<close> returns for one str: an object of which the code
  reads the attribute \<^verbatim>\<open>text\<close>. The record is extensible, so a result with any
  further attributes is a \<open>text_result_scheme\<close>.
\<close>

record text_result =
  text_attr :: string

text \<open>
  A call of the SDK, with the arguments it was given: the text, \<^verbatim>\<open>target_lang\<close> and
  \<^verbatim>\<open>formality\<close> (\<open>None\<close> for Python's \<^verbatim>\<open>None\<close>).
\<close>

datatype vendor_call = TranslateText string string "string option"

text \<open>
  The client and what lies behind it: the answer of the SDK to a translation call, and
  the calls made so far.
\<close>

record 'a vendor =
  sdk_translate_text ::
    "string \<Rightarrow> string \<Rightarrow> string option \<Rightarrow> py_error + 'a text_result_scheme"
  vendor_calls :: "vendor_call list"

definition translate_dude :: "'a vendor \<Rightarrow> (py_error + string) \<times> 'a vendor" where
  "translate_dude v = (Inr ''dude'', v)"

definition translate_text ::
  "'a vendor \<Rightarrow> string \<Rightarrow> string \<Rightarrow> string option \<Rightarrow> (py_error + string) \<times> 'a vendor" where
  "translate_text v text targetLang formality =
     (let v' = v\<lparr>vendor_calls := vendor_calls v @ [TranslateText text targetLang formality]\<rparr>
      in case sdk_translate_text v text targetLang formality of
           Inl e \<Rightarrow> (Inl e, v')
         | Inr result \<Rightarrow> (Inr (text_attr result), v'))"

section \<open>The tool registry\<close>

text \<open>
  Modelled from the spec: the dispatcher that \<^verbatim>\<open>@mcp.tool\<close> registers a handler with
  is the tool-serving framework, which is not part of the source. Of an invocation the
  design says (4.1): it validates the arguments against the declared signature and
  fails with \<open>InvalidArgument\<close> if validation fails, before the handler is ever called;
  otherwise it calls the handler and returns its result unchanged, or propagates the
  handler's failure as an \<open>UpstreamError\<close>.
\<close>

datatype tool_error = InvalidArgument | UpstreamError py_error

text \<open>
  Modelled from the spec: one invocation. \<open>valid\<close> is the outcome of validating the
  arguments, \<open>handler\<close> the handler applied to them.
\<close>

definition invoke ::
  "bool \<Rightarrow> ('w \<Rightarrow> (py_error + 'a) \<times> 'w) \<Rightarrow> 'w \<Rightarrow> (tool_error + 'a) \<times> 'w" where
  "invoke valid handler w =
     (if valid then
        (case handler w of
           (Inl e, w') \<Rightarrow> (Inl (UpstreamError e), w')
         | (Inr x, w') \<Rightarrow> (Inr x, w'))
      else (Inl InvalidArgument, w))"

text \<open>
  Modelled from the spec: the tools \<^verbatim>\<open>get_joke_by_id\<close> and \<^verbatim>\<open>get_joke_by_type\<close> as
  the dispatcher serves them, each handler behind the constraint its parameter declares.
\<close>

definition tool_get_joke_by_id ::
  "(json \<Rightarrow> string) \<Rightarrow> world \<Rightarrow> int \<Rightarrow> (tool_error + string) \<times> world" where
  "tool_get_joke_by_id repr w i =
     invoke (id_constraint i) (\<lambda>w. get_joke_by_id repr w i) w"

definition tool_get_joke_by_type ::
  "(json \<Rightarrow> string) \<Rightarrow> world \<Rightarrow> string \<Rightarrow> (tool_error + string) \<times> world" where
  "tool_get_joke_by_type repr w t =
     invoke (joke_type_constraint t) (\<lambda>w. get_joke_by_type repr w t) w"

section \<open>Properties of the joke server\<close>

subsection \<open>The helper\<close>

lemma extract_joke_dict:
  "extract_joke repr (JObj d) =
     (case map_of d ''setup'' of
        None \<Rightarrow> Inl (KeyError (Name ''setup''))
      | Some s \<Rightarrow>
          (case map_of d ''punchline'' of
             None \<Rightarrow> Inl (KeyError (Name ''punchline''))
           | Some p \<Rightarrow> Inr (py_format repr s @ [CHR 0x0A] @ py_format repr p)))"
  by (simp add: extract_joke_def split: option.split)

lemma py_format_str: "py_format repr (JStr s) = s"
  by (simp add: py_format_def)

text \<open>
  C10. The extraction is a function of its argument that reads it at the keys
  \<^verbatim>\<open>'setup'\<close> and \<^verbatim>\<open>'punchline'\<close> only: two dicts that agree at these two keys (each
  key held by both with the same value, or by neither) give the same result, the same
  string or the same exception, whatever other items they hold and in whatever order
  their items stand. The same value is the same built the same way: for a value that
  is itself a dict, the same items in the same order.
\<close>

theorem extract_joke_two_fields_only:
  assumes "map_of d1 ''setup'' = map_of d2 ''setup''"
    and "map_of d1 ''punchline'' = map_of d2 ''punchline''"
  shows "extract_joke repr (JObj d1) = extract_joke repr (JObj d2)"
  by (simp add: extract_joke_dict assms split: option.split)

theorem extract_joke_two_fields_only_witness:
  "extract_joke (\<lambda>v. ''?'')
     (JObj [(''setup'', JObj [(''a'', JInt 1), (''b'', JInt 2)]), (''punchline'', JStr ''P''),
            (''id'', JInt 7)])
   = extract_joke (\<lambda>v. ''?'')
     (JObj [(''type'', JStr ''dad''), (''punchline'', JStr ''P''),
            (''setup'', JObj [(''a'', JInt 1), (''b'', JInt 2)])])"
  using extract_joke_two_fields_only
    [of "[(''setup'', JObj [(''a'', JInt 1), (''b'', JInt 2)]), (''punchline'', JStr ''P''),
          (''id'', JInt 7)]"
        "[(''type'', JStr ''dad''), (''punchline'', JStr ''P''),
          (''setup'', JObj [(''a'', JInt 1), (''b'', JInt 2)])]"
        "\<lambda>v. ''?''"]
  by simp

subsection \<open>The three fetching tools\<close>

lemma get_joke_result:
  "fst (get_joke repr w) =
     (case upstream_json w (API_BASE_URL @ ''/random_joke'') of
        Inl e \<Rightarrow> Inl e
      | Inr j \<Rightarrow> extract_joke repr j)"
  by (simp add: get_joke_def requests_get_def upstream_json_def split: sum.split)

lemma get_joke_by_id_result:
  "fst (get_joke_by_id repr w i) =
     (case upstream_json w (API_BASE_URL @ ''/jokes/'' @ str_int i) of
        Inl e \<Rightarrow> Inl e
      | Inr j \<Rightarrow> extract_joke repr j)"
  by (simp add: get_joke_by_id_def requests_get_def upstream_json_def split: sum.split)

lemma get_joke_by_type_result:
  "fst (get_joke_by_type repr w t) =
     (case upstream_json w (API_BASE_URL @ ''/jokes/'' @ t @ ''/random'') of
        Inl e \<Rightarrow> Inl e
      | Inr j \<Rightarrow>
          (case getitem j (Index 0) of
             Inl e \<Rightarrow> Inl e
           | Inr first \<Rightarrow> extract_joke repr first))"
  by (simp add: get_joke_by_type_def requests_get_def upstream_json_def split: sum.split)

lemma get_joke_by_id_requested:
  "requested (snd (get_joke_by_id repr w i)) =
     requested w @ [API_BASE_URL @ ''/jokes/'' @ str_int i]"
  by (simp add: get_joke_by_id_def requests_get_def split: sum.split)

lemma get_joke_by_type_requested:
  "requested (snd (get_joke_by_type repr w t)) =
     requested w @ [API_BASE_URL @ ''/jokes/'' @ t @ ''/random'']"
  by (simp add: get_joke_by_type_def requests_get_def split: sum.split)

text \<open>
  C5. When the upstream API answers with a JSON object whose \<^verbatim>\<open>setup\<close> and
  \<^verbatim>\<open>punchline\<close> are strings, \<^verbatim>\<open>get_joke\<close> and \<^verbatim>\<open>get_joke_by_id\<close> return exactly the
  setup, one newline character and the punchline.
\<close>

theorem joke_is_setup_newline_punchline:
  assumes "map_of d ''setup'' = Some (JStr s)"
    and "map_of d ''punchline'' = Some (JStr p)"
  shows "(upstream_json w (API_BASE_URL @ ''/random_joke'') = Inr (JObj d) \<longrightarrow>
            fst (get_joke repr w) = Inr (s @ [CHR 0x0A] @ p)) \<and>
         (upstream_json w (API_BASE_URL @ ''/jokes/'' @ str_int i) = Inr (JObj d) \<longrightarrow>
            fst (get_joke_by_id repr w i) = Inr (s @ [CHR 0x0A] @ p))"
  by (simp add: get_joke_result get_joke_by_id_result extract_joke_dict py_format_str assms)

theorem joke_is_setup_newline_punchline_witness:
  "fst (get_joke (\<lambda>v. ''?'')
         (mock_upstream (JObj
            [(''setup'', JStr ''Why?''), (''punchline'', JStr ''Because.'')])))
     = Inr (''Why?'' @ [CHR 0x0A] @ ''Because.'') \<and>
   fst (get_joke_by_id (\<lambda>v. ''?'')
         (mock_upstream (JObj
            [(''setup'', JStr ''Why?''), (''punchline'', JStr ''Because.'')])) 1)
     = Inr (''Why?'' @ [CHR 0x0A] @ ''Because.'')"
  using joke_is_setup_newline_punchline
    [of "[(''setup'', JStr ''Why?''), (''punchline'', JStr ''Because.'')]"
        "''Why?''" "''Because.''"
        "(mock_upstream (JObj
            [(''setup'', JStr ''Why?''), (''punchline'', JStr ''Because.'')]))"
        "\<lambda>v. ''?''" 1]
  by (simp add: upstream_json_def response_json_def)

text \<open>
  C6. When the upstream API answers the per-type URL with an array of one joke object
  whose \<^verbatim>\<open>setup\<close> and \<^verbatim>\<open>punchline\<close> are strings, \<^verbatim>\<open>get_joke_by_type\<close> applies the
  extraction to the first element of the array and returns its result: the setup, one
  newline character and the punchline.
\<close>

theorem joke_by_type_takes_first_element:
  assumes "upstream_json w (API_BASE_URL @ ''/jokes/'' @ t @ ''/random'') = Inr (JArr [JObj d])"
    and "map_of d ''setup'' = Some (JStr s)"
    and "map_of d ''punchline'' = Some (JStr p)"
  shows "fst (get_joke_by_type repr w t) = extract_joke repr (JObj d) \<and>
         fst (get_joke_by_type repr w t) = Inr (s @ [CHR 0x0A] @ p)"
  using assms
  by (simp add: get_joke_by_type_result seq_index_def extract_joke_dict py_format_str)

theorem joke_by_type_takes_first_element_witness:
  "fst (get_joke_by_type (\<lambda>v. ''?'')
         (mock_upstream (JArr [JObj
            [(''setup'', JStr ''S''), (''punchline'', JStr ''P'')]])) ''dad'')
     = Inr (''S'' @ [CHR 0x0A] @ ''P'')"
  using joke_by_type_takes_first_element
    [of "(mock_upstream (JArr [JObj
            [(''setup'', JStr ''S''), (''punchline'', JStr ''P'')]]))"
        "''dad''"
        "[(''setup'', JStr ''S''), (''punchline'', JStr ''P'')]"
        "''S''" "''P''" "\<lambda>v. ''?''"]
  by (simp add: upstream_json_def response_json_def extract_joke_dict py_format_str)

text \<open>
  C9. When the upstream API answers the per-type URL with an empty array,
  \<^verbatim>\<open>get_joke_by_type\<close> returns no string: \<^verbatim>\<open>json[0]\<close> raises IndexError, which leaves
  the handler.
\<close>

theorem joke_by_type_empty_array_raises:
  assumes "upstream_json w (API_BASE_URL @ ''/jokes/'' @ t @ ''/random'') = Inr (JArr [])"
  shows "fst (get_joke_by_type repr w t) = Inl IndexError"
  using assms
  by (simp add: get_joke_by_type_result seq_index_def)

theorem joke_by_type_empty_array_raises_witness:
  "fst (get_joke_by_type (\<lambda>v. ''?'')
         (mock_upstream (JArr [])) ''general'')
     = Inl IndexError"
  using joke_by_type_empty_array_raises
    [of "(mock_upstream (JArr []))"
        "''general''" "\<lambda>v. ''?''"]
  by (simp add: upstream_json_def response_json_def)

text \<open>
  C1. When the JSON object that the upstream API sends lacks \<^verbatim>\<open>setup\<close> or
  \<^verbatim>\<open>punchline\<close>, each of \<^verbatim>\<open>get_joke\<close>, \<^verbatim>\<open>get_joke_by_id\<close> and \<^verbatim>\<open>get_joke_by_type\<close>
  (where the object is the first element of the array sent) fails: it returns no
  string, neither a part of the joke nor a default, but raises the error for a
  malformed response, which in this code is Python's KeyError for the first key
  that is missing.
\<close>

theorem missing_field_raises:
  assumes "map_of d ''setup'' = None \<or> map_of d ''punchline'' = None"
  shows "(upstream_json w (API_BASE_URL @ ''/random_joke'') = Inr (JObj d) \<longrightarrow>
            fst (get_joke repr w) =
              Inl (KeyError (Name (if map_of d ''setup'' = None then ''setup'' else ''punchline'')))) \<and>
         (upstream_json w (API_BASE_URL @ ''/jokes/'' @ str_int i) = Inr (JObj d) \<longrightarrow>
            fst (get_joke_by_id repr w i) =
              Inl (KeyError (Name (if map_of d ''setup'' = None then ''setup'' else ''punchline'')))) \<and>
         (upstream_json w (API_BASE_URL @ ''/jokes/'' @ t @ ''/random'') = Inr (JArr (JObj d # rest)) \<longrightarrow>
            fst (get_joke_by_type repr w t) =
              Inl (KeyError (Name (if map_of d ''setup'' = None then ''setup'' else ''punchline''))))"
  using assms
  by (auto simp add: get_joke_result get_joke_by_id_result get_joke_by_type_result
      seq_index_def extract_joke_dict split: option.split)

theorem missing_field_raises_witness:
  "fst (get_joke (\<lambda>v. ''?'') (mock_upstream (JObj [(''punchline'', JStr ''P'')])))
     = Inl (KeyError (Name ''setup'')) \<and>
   fst (get_joke_by_id (\<lambda>v. ''?'') (mock_upstream (JObj [(''setup'', JStr ''S'')])) 7)
     = Inl (KeyError (Name ''punchline'')) \<and>
   fst (get_joke_by_type (\<lambda>v. ''?'')
          (mock_upstream (JArr [JObj [(''type'', JStr ''error'')]])) ''dad'')
     = Inl (KeyError (Name ''setup''))"
  using
    missing_field_raises
      [of "[(''punchline'', JStr ''P'')]"
          "mock_upstream (JObj [(''punchline'', JStr ''P'')])" "\<lambda>v. ''?''" 7 "''dad''" "[]"]
    missing_field_raises
      [of "[(''setup'', JStr ''S'')]"
          "mock_upstream (JObj [(''setup'', JStr ''S'')])" "\<lambda>v. ''?''" 7 "''dad''" "[]"]
    missing_field_raises
      [of "[(''type'', JStr ''error'')]"
          "mock_upstream (JArr [JObj [(''type'', JStr ''error'')]])" "\<lambda>v. ''?''" 7 "''dad''" "[]"]
  by (simp add: upstream_json_def response_json_def)

subsection \<open>The tools behind the registry\<close>

lemma invoke_invalid: "\<not> valid \<Longrightarrow> invoke valid handler w = (Inl InvalidArgument, w)"
  by (simp add: invoke_def)

lemma invoke_valid:
  "valid \<Longrightarrow>
     invoke valid handler w = (map_sum UpstreamError (\<lambda>x. x) (fst (handler w)), snd (handler w))"
  by (cases "handler w") (auto simp add: invoke_def split: sum.split)

lemma map_sum_not_invalid: "map_sum UpstreamError (\<lambda>x. x) r \<noteq> Inl InvalidArgument"
  by (cases r) simp_all

text \<open>
  C3. For every integer outside 1 .. 451, invoking \<^verbatim>\<open>get_joke_by_id\<close> fails with
  \<open>InvalidArgument\<close> and leaves the world as it was, so no request has been made. For
  every integer in 1 .. 451 validation passes and the handler runs: the world after
  the invocation is the one the handler leaves, with the request for that id made.
\<close>

theorem get_joke_by_id_range_validated:
  "(i < 1 \<or> 451 < i \<longrightarrow>
      tool_get_joke_by_id repr w i = (Inl InvalidArgument, w)) \<and>
   (1 \<le> i \<and> i \<le> 451 \<longrightarrow>
      fst (tool_get_joke_by_id repr w i) \<noteq> Inl InvalidArgument \<and>
      snd (tool_get_joke_by_id repr w i) = snd (get_joke_by_id repr w i) \<and>
      requested (snd (tool_get_joke_by_id repr w i)) =
        requested w @ [API_BASE_URL @ ''/jokes/'' @ str_int i])"
proof (cases "id_constraint i")
  case True
  then show ?thesis
    unfolding tool_get_joke_by_id_def
    by (simp add: invoke_valid map_sum_not_invalid get_joke_by_id_requested id_constraint_def)
next
  case False
  then show ?thesis
    unfolding tool_get_joke_by_id_def
    by (auto simp add: invoke_invalid id_constraint_def)
qed

theorem get_joke_by_id_range_validated_witness:
  "tool_get_joke_by_id (\<lambda>v. ''?'') (mock_upstream JNull) 0
     = (Inl InvalidArgument, mock_upstream JNull) \<and>
   tool_get_joke_by_id (\<lambda>v. ''?'') (mock_upstream JNull) 452
     = (Inl InvalidArgument, mock_upstream JNull) \<and>
   requested (snd (tool_get_joke_by_id (\<lambda>v. ''?'') (mock_upstream JNull) 1))
     = [API_BASE_URL @ ''/jokes/1''] \<and>
   requested (snd (tool_get_joke_by_id (\<lambda>v. ''?'') (mock_upstream JNull) 451))
     = [API_BASE_URL @ ''/jokes/451'']"
  using
    get_joke_by_id_range_validated [of 0 "\<lambda>v. ''?''" "mock_upstream JNull"]
    get_joke_by_id_range_validated [of 452 "\<lambda>v. ''?''" "mock_upstream JNull"]
    get_joke_by_id_range_validated [of 1 "\<lambda>v. ''?''" "mock_upstream JNull"]
    get_joke_by_id_range_validated [of 451 "\<lambda>v. ''?''" "mock_upstream JNull"]
  by (simp add: str_int_def str_nat.simps get_joke_by_id_requested)

text \<open>
  C4. For every \<^verbatim>\<open>joke_type\<close> that is none of \<^verbatim>\<open>general\<close>, \<^verbatim>\<open>knock-knock\<close>,
  \<^verbatim>\<open>programming\<close> and \<^verbatim>\<open>dad\<close>, invoking \<^verbatim>\<open>get_joke_by_type\<close> fails with
  \<open>InvalidArgument\<close> and leaves the world as it was, so no request has been made. For
  each of the four values validation passes and the handler runs, with the request for
  that type made.
\<close>

theorem get_joke_by_type_enum_validated:
  "(t \<notin> {''general'', ''knock-knock'', ''programming'', ''dad''} \<longrightarrow>
      tool_get_joke_by_type repr w t = (Inl InvalidArgument, w)) \<and>
   (t \<in> {''general'', ''knock-knock'', ''programming'', ''dad''} \<longrightarrow>
      fst (tool_get_joke_by_type repr w t) \<noteq> Inl InvalidArgument \<and>
      snd (tool_get_joke_by_type repr w t) = snd (get_joke_by_type repr w t) \<and>
      requested (snd (tool_get_joke_by_type repr w t)) =
        requested w @ [API_BASE_URL @ ''/jokes/'' @ t @ ''/random''])"
proof (cases "joke_type_constraint t")
  case True
  then show ?thesis
    unfolding tool_get_joke_by_type_def
    by (simp add: invoke_valid map_sum_not_invalid get_joke_by_type_requested
        joke_type_constraint_def JOKE_TYPES_def)
next
  case False
  then show ?thesis
    unfolding tool_get_joke_by_type_def
    by (auto simp add: invoke_invalid joke_type_constraint_def JOKE_TYPES_def)
qed

theorem get_joke_by_type_enum_validated_witness:
  "tool_get_joke_by_type (\<lambda>v. ''?'') (mock_upstream JNull) ''pun''
     = (Inl InvalidArgument, mock_upstream JNull) \<and>
   requested (snd (tool_get_joke_by_type (\<lambda>v. ''?'') (mock_upstream JNull) ''general''))
     = [API_BASE_URL @ ''/jokes/general/random''] \<and>
   requested (snd (tool_get_joke_by_type (\<lambda>v. ''?'') (mock_upstream JNull) ''knock-knock''))
     = [API_BASE_URL @ ''/jokes/knock-knock/random''] \<and>
   requested (snd (tool_get_joke_by_type (\<lambda>v. ''?'') (mock_upstream JNull) ''programming''))
     = [API_BASE_URL @ ''/jokes/programming/random''] \<and>
   requested (snd (tool_get_joke_by_type (\<lambda>v. ''?'') (mock_upstream JNull) ''dad''))
     = [API_BASE_URL @ ''/jokes/dad/random'']"
  using
    get_joke_by_type_enum_validated [of "''pun''" "\<lambda>v. ''?''" "mock_upstream JNull"]
    get_joke_by_type_enum_validated [of "''general''" "\<lambda>v. ''?''" "mock_upstream JNull"]
    get_joke_by_type_enum_validated [of "''knock-knock''" "\<lambda>v. ''?''" "mock_upstream JNull"]
    get_joke_by_type_enum_validated [of "''programming''" "\<lambda>v. ''?''" "mock_upstream JNull"]
    get_joke_by_type_enum_validated [of "''dad''" "\<lambda>v. ''?''" "mock_upstream JNull"]
  by (simp add: get_joke_by_type_requested)

section \<open>Properties of the translation server\<close>

text \<open>
  C7. For every text, target language and formality, \<^verbatim>\<open>translate_text\<close> makes one
  call of the SDK, with the text, the target language as \<^verbatim>\<open>target_lang\<close> and the
  formality as they were given (\<open>None\<close> when there is none), and returns the \<^verbatim>\<open>text\<close>
  attribute of the SDK's result and nothing else of it; a failure of the SDK leaves
  the handler as it is.
\<close>

theorem translate_text_forwards_and_keeps_text:
  "snd (translate_text v text targetLang formality) =
     v\<lparr>vendor_calls := vendor_calls v @ [TranslateText text targetLang formality]\<rparr> \<and>
   fst (translate_text v text targetLang formality) =
     (case sdk_translate_text v text targetLang formality of
        Inl e \<Rightarrow> Inl e
      | Inr result \<Rightarrow> Inr (text_attr result))"
  by (simp add: translate_text_def Let_def split: sum.split)

theorem translate_text_forwards_and_keeps_text_witness:
  "fst (translate_text
         \<lparr>sdk_translate_text = \<lambda>text target_lang formality.
            Inr \<lparr>text_attr = ''Hallo'', \<dots> = (''EN'', 5::nat)\<rparr>,
          vendor_calls = []\<rparr>
         ''Hello'' ''de'' (Some ''more'')) = Inr ''Hallo'' \<and>
   vendor_calls (snd (translate_text
         \<lparr>sdk_translate_text = \<lambda>text target_lang formality.
            Inr \<lparr>text_attr = ''Hallo'', \<dots> = (''EN'', 5::nat)\<rparr>,
          vendor_calls = []\<rparr>
         ''Hello'' ''de'' (Some ''more''))) = [TranslateText ''Hello'' ''de'' (Some ''more'')]"
  using translate_text_forwards_and_keeps_text
    [of "\<lparr>sdk_translate_text = \<lambda>text target_lang formality.
            Inr \<lparr>text_attr = ''Hallo'', \<dots> = (''EN'', 5::nat)\<rparr>,
          vendor_calls = []\<rparr>"
        "''Hello''" "''de''" "Some ''more''"]
  by simp

text \<open>
  C8. Every call of \<^verbatim>\<open>translate_dude\<close> returns the string \<^verbatim>\<open>dude\<close>; it takes no
  argument and makes no call of the SDK, so it leaves everything as it was.
\<close>

theorem translate_dude_constant:
  "translate_dude v = (Inr ''dude'', v)"
  by (simp add: translate_dude_def)

subsection \<open>The start of the process\<close>

text \<open>
  C2, as the design states it: without the variable for the API key the server still
  starts, and only a later call of the SDK fails. With the SDK's constructor the run of
  the module in an environment without the variable ends in ValueError, and the loop
  that serves the tools is never entered.
\<close>

theorem absent_key_startup_counterexample:
  "empty_environ ''DEEPL_API_KEY'' = None \<and>
   fst (module_run DeepLClient empty_environ) = Inl ValueError \<and>
   ServerRunning \<notin> set (snd (module_run DeepLClient empty_environ))"
  by (simp add: module_run_def deepl_client_def DEEPL_API_KEY_def empty_environ_def)

text \<open>
  C2, amended. When the environment does not hold the variable for the API key, the
  lookup gives \<^verbatim>\<open>None\<close> and the first thing the module does with it is to build the
  client from it. A constructor that refuses \<^verbatim>\<open>None\<close> ends the process there, with its
  exception: nothing else has happened, so the server object is not created, no tool
  is registered and the loop that serves the tools is not entered. The constructor of
  the SDK does refuse it, with ValueError. The missing key is a failure of the start,
  not of a later request.
\<close>

theorem absent_key_fails_at_startup:
  assumes "environ ''DEEPL_API_KEY'' = None"
  shows "(constructor None = Inl e \<longrightarrow>
            module_run constructor environ = (Inl e, [ClientConstructed None])) \<and>
         module_run DeepLClient environ = (Inl ValueError, [ClientConstructed None])"
  using assms by (simp add: module_run_def deepl_client_def DEEPL_API_KEY_def)

theorem absent_key_fails_at_startup_witness:
  "module_run DeepLClient empty_environ = (Inl ValueError, [ClientConstructed None]) \<and>
   ToolRegistered ''translate_text'' \<notin> set (snd (module_run DeepLClient empty_environ))"
  using absent_key_fails_at_startup [of empty_environ DeepLClient ValueError]
  by (simp add: empty_environ_def)

end
